theory Spec2Isabelle
  imports Main "HOL-Library.Monad_Syntax"
begin

chapter \<open>The model\<close>

text \<open>
  A shallow embedding of the three routes of the repository: the EOD route
  (src/app/slack-eod/route.ts), a second EOD route that differs from it in the rolling
  window and in the lines printed for created merge requests (src/unnamed/part_001), and
  the debug route (src/unnamed/part_000).
\<close>

section \<open>Time values\<close>

text \<open>
  The routes compute with JavaScript \<^verbatim>\<open>Date\<close> objects. A \<^verbatim>\<open>Date\<close> holds a time value:
  an integral number of milliseconds since 1970-01-01T00:00:00Z, or NaN (an invalid date).
  A time value is an \<open>int\<close>; a \<^verbatim>\<open>Date\<close> is an \<open>int option\<close> with \<open>None\<close> for the
  invalid date. The day and calendar arithmetic below is the one of ECMA-262 (section
  "Time Values and Time Range" ff.), which \<^verbatim>\<open>Date\<close> parsing and printing are defined by.
  The limit of the time range (8.64e15 ms, about 275760 years, either side of 1970) is
  not modelled: the routes add at most 24 hours to an instant and subtract at most seven
  days, so the limit matters only within eight days of it.
\<close>

type_synonym Date = "int option"

definition msPerDay :: int where
  "msPerDay = 86400000"

definition Day :: "int \<Rightarrow> int" where
  "Day t = t div msPerDay"

definition TimeWithinDay :: "int \<Rightarrow> int" where
  "TimeWithinDay t = t mod msPerDay"

definition DaysInYear :: "int \<Rightarrow> int" where
  "DaysInYear y =
     (if y mod 4 \<noteq> 0 then 365
      else if y mod 100 \<noteq> 0 then 366
      else if y mod 400 \<noteq> 0 then 365
      else 366)"

definition DayFromYear :: "int \<Rightarrow> int" where
  "DayFromYear y =
     365 * (y - 1970) + (y - 1969) div 4 - (y - 1901) div 100 + (y - 1601) div 400"

definition leap :: "int \<Rightarrow> int" where
  "leap y = (if DaysInYear y = 366 then 1 else 0)"

text \<open>
  \<open>monthStart y m\<close> is the number of the first day of month \<open>m\<close> (0 = January) within
  year \<open>y\<close>: the boundaries of the table that defines MonthFromTime in ECMA-262.
\<close>

definition monthStart :: "int \<Rightarrow> int \<Rightarrow> int" where
  "monthStart y m =
     (if m = 0 then 0 else if m = 1 then 31
      else if m = 2 then 59 + leap y else if m = 3 then 90 + leap y
      else if m = 4 then 120 + leap y else if m = 5 then 151 + leap y
      else if m = 6 then 181 + leap y else if m = 7 then 212 + leap y
      else if m = 8 then 243 + leap y else if m = 9 then 273 + leap y
      else if m = 10 then 304 + leap y else if m = 11 then 334 + leap y
      else 365 + leap y)"

definition DaysInMonth :: "int \<Rightarrow> int \<Rightarrow> int" where
  "DaysInMonth y m = monthStart y (m + 1) - monthStart y m"

definition MakeDay :: "int \<Rightarrow> int \<Rightarrow> int \<Rightarrow> int" where
  "MakeDay year month date =
     (let ym = year + month div 12; mn = month mod 12
      in DayFromYear ym + monthStart ym mn + date - 1)"

definition MakeTime :: "int \<Rightarrow> int \<Rightarrow> int \<Rightarrow> int \<Rightarrow> int" where
  "MakeTime hour minute sec ms = hour * 3600000 + minute * 60000 + sec * 1000 + ms"

definition MakeDate :: "int \<Rightarrow> int \<Rightarrow> int" where
  "MakeDate day time = day * msPerDay + time"

text \<open>
  Reading a time value back as calendar fields. ECMA-262 defines YearFromTime(t) as the
  largest \<open>y\<close> whose first day is not after \<open>t\<close>; \<open>inYear y t\<close> says that \<open>y\<close> is that year
  (lemma \<open>inYear_unique\<close> shows there is only one). Month (0 = January) and day of the
  month follow the tables of MonthFromTime and DateFromTime.
\<close>

definition inYear :: "int \<Rightarrow> int \<Rightarrow> bool" where
  "inYear y t = (DayFromYear y \<le> Day t \<and> Day t < DayFromYear (y + 1))"

definition DayWithinYear :: "int \<Rightarrow> int \<Rightarrow> int" where
  "DayWithinYear y t = Day t - DayFromYear y"

definition MonthFromTime :: "int \<Rightarrow> int \<Rightarrow> int" where
  "MonthFromTime y t =
     (let d = DayWithinYear y t; l = leap y
      in if d < 31 then 0 else if d < 59 + l then 1
         else if d < 90 + l then 2 else if d < 120 + l then 3
         else if d < 151 + l then 4 else if d < 181 + l then 5
         else if d < 212 + l then 6 else if d < 243 + l then 7
         else if d < 273 + l then 8 else if d < 304 + l then 9
         else if d < 334 + l then 10 else 11)"

definition DateFromTime :: "int \<Rightarrow> int \<Rightarrow> int" where
  "DateFromTime y t =
     (let d = DayWithinYear y t; l = leap y; m = MonthFromTime y t
      in if m = 0 then d + 1 else if m = 1 then d - 30
         else if m = 2 then d - 58 - l else if m = 3 then d - 89 - l
         else if m = 4 then d - 119 - l else if m = 5 then d - 150 - l
         else if m = 6 then d - 180 - l else if m = 7 then d - 211 - l
         else if m = 8 then d - 242 - l else if m = 9 then d - 272 - l
         else if m = 10 then d - 303 - l else d - 333 - l)"

subsection \<open>Parsing a date-time string\<close>

text \<open>
  \<^verbatim>\<open>new Date(string)\<close> parses its argument. ECMA-262 fixes the result for the date-time
  string format \<^verbatim>\<open>YYYY-MM-DDTHH:mm:ss.sssZ\<close>; what happens to any other string is left to
  the engine. \<open>parse_iso\<close> reads the full date-time form with an explicit offset,
  \<^verbatim>\<open>YYYY-MM-DDTHH:mm:ss\<close>, an optional \<^verbatim>\<open>.sss\<close>, then \<^verbatim>\<open>Z\<close> or \<^verbatim>\<open>+HH:mm\<close> or \<^verbatim>\<open>-HH:mm\<close>,
  and only when every field is in range and the day exists in its month. For every
  other string the result is the parameter \<open>other\<close>: the engine's own answer (possibly
  NaN), about which nothing is assumed.
\<close>

definition is_digit :: "char \<Rightarrow> bool" where
  "is_digit c = (48 \<le> (of_char c :: nat) \<and> (of_char c :: nat) \<le> 57)"

definition digit_val :: "char \<Rightarrow> int" where
  "digit_val c = int (of_char c) - 48"

definition num :: "string \<Rightarrow> int" where
  "num ds = foldl (\<lambda>a c. 10 * a + digit_val c) 0 ds"

definition read_digits :: "nat \<Rightarrow> string \<Rightarrow> (int \<times> string) option" where
  "read_digits n s =
     (if n \<le> length s \<and> list_all is_digit (take n s)
      then Some (num (take n s), drop n s) else None)"

definition expect :: "char \<Rightarrow> string \<Rightarrow> string option" where
  "expect c s = (case s of [] \<Rightarrow> None | x # r \<Rightarrow> if x = c then Some r else None)"

definition read_fraction :: "string \<Rightarrow> (int \<times> string) option" where
  "read_fraction s =
     (case s of
        [] \<Rightarrow> Some (0, s)
      | x # r \<Rightarrow> if x = CHR ''.'' then read_digits 3 r else Some (0, s))"

definition read_offset :: "string \<Rightarrow> int option" where
  "read_offset s =
     (case s of
        [] \<Rightarrow> None
      | x # r \<Rightarrow>
          if x = CHR ''Z'' then (if r = [] then Some 0 else None)
          else if x = CHR ''+'' \<or> x = CHR ''-'' then
            do {
              (h, r1) \<leftarrow> read_digits 2 r;
              r2 \<leftarrow> expect CHR '':'' r1;
              (m, r3) \<leftarrow> read_digits 2 r2;
              if r3 = [] \<and> h \<le> 23 \<and> m \<le> 59
              then Some ((if x = CHR ''+'' then 1 else - 1) * (h * 60 + m) * 60000)
              else None
            }
          else None)"

definition parse_iso :: "string \<Rightarrow> int option" where
  "parse_iso s =
     do {
       (y, s1) \<leftarrow> read_digits 4 s;
       s2 \<leftarrow> expect CHR ''-'' s1;
       (m, s3) \<leftarrow> read_digits 2 s2;
       s4 \<leftarrow> expect CHR ''-'' s3;
       (d, s5) \<leftarrow> read_digits 2 s4;
       s6 \<leftarrow> expect CHR ''T'' s5;
       (hh, s7) \<leftarrow> read_digits 2 s6;
       s8 \<leftarrow> expect CHR '':'' s7;
       (mi, s9) \<leftarrow> read_digits 2 s8;
       s10 \<leftarrow> expect CHR '':'' s9;
       (ss, s11) \<leftarrow> read_digits 2 s10;
       (ms, s12) \<leftarrow> read_fraction s11;
       off \<leftarrow> read_offset s12;
       if 1 \<le> m \<and> m \<le> 12 \<and> 1 \<le> d \<and> d \<le> DaysInMonth y (m - 1)
          \<and> hh \<le> 23 \<and> mi \<le> 59 \<and> ss \<le> 59
       then Some (MakeDate (MakeDay y (m - 1) d) (MakeTime hh mi ss ms) - off)
       else None
     }"

definition Date_parse :: "(string \<Rightarrow> int option) \<Rightarrow> string \<Rightarrow> Date" where
  "Date_parse other s = (case parse_iso s of Some t \<Rightarrow> Some t | None \<Rightarrow> other s)"

text \<open>\<^verbatim>\<open>new Date(d.getTime() + k)\<close>: NaN stays NaN.\<close>

definition Date_plus :: "Date \<Rightarrow> int \<Rightarrow> Date" where
  "Date_plus d k = (case d of None \<Rightarrow> None | Some t \<Rightarrow> Some (t + k))"

text \<open>
  What a route can throw up to its HTTP handler: the \<^verbatim>\<open>RangeError\<close> of \<^verbatim>\<open>toISOString\<close>
  on an invalid date, or any other \<^verbatim>\<open>Error\<close>; each carries its message.
\<close>

datatype exn = RangeError string | Error string


text \<open>
  \<^verbatim>\<open>d.toISOString()\<close> throws on an invalid date. The ISO string of a valid date is kept as
  the time value it denotes (the rendering is one-to-one), so the \<^verbatim>\<open>since\<close>/\<^verbatim>\<open>until\<close>
  strings sent to GitLab are instants here.
\<close>

definition toISOString :: "Date \<Rightarrow> exn + int" where
  "toISOString d = (case d of None \<Rightarrow> Inl (RangeError ''Invalid time value'') | Some t \<Rightarrow> Inr t)"

section \<open>Configuration and the outside world\<close>

record config =
  GITLAB_API :: string
  GITLAB_TOKEN :: string
  GITLAB_PROJECT_ID :: string
  GITLAB_USER_ID :: string
  GITLAB_EMAIL :: "string option"
  GITLAB_USERNAME :: "string option"
  SLACK_USER_ID :: string
  AI_MODEL_NAME :: string

text \<open>A query parameter: a string, a number, the ISO string of an instant, or \<^verbatim>\<open>undefined\<close>.\<close>

datatype param = Str string | Num nat | Iso int | Undefined

record request =
  url :: string
  private_token :: string
  params :: "(string \<times> param) list"

text \<open>
  What \<^verbatim>\<open>axios.get\<close> rejects with: \<^verbatim>\<open>err.message\<close> and \<^verbatim>\<open>err.response?.status\<close>
  (\<open>None\<close> when no response arrived, as for a timeout or a refused connection).
\<close>

record axios_error =
  err_message :: string
  err_status :: "nat option"

text \<open>The fields the routes read from GitLab's JSON; a name GitLab gives as null is \<open>None\<close>.\<close>

record branch_commit =
  created_at :: string

record branch_json =
  bj_name :: "string option"
  bj_commit :: "branch_commit option"

record mr_json =
  mr_title :: string
  mr_web_url :: string
  mr_source_branch :: "string option"
  mr_description :: "string option"

record commit_json =
  cj_id :: string
  cj_title :: string
  cj_web_url :: string

text \<open>
  Everything a request depends on outside the code: the clock, the host's UTC offset
  (milliseconds, used when \<^verbatim>\<open>Date\<close> reads a string that names no offset), the engine's
  parsing of strings outside \<open>parse_iso\<close>, \<^verbatim>\<open>String.prototype.trim\<close>, the display
  formatting of \<^verbatim>\<open>formatIstLabel\<close>, GitLab's answer to each request, the summariser and Slack.
  \<open>chat_completion model labelSince labelUntil activity\<close> is
  \<^verbatim>\<open>aiResponse.choices?.[0]?.message?.content\<close> (\<open>None\<close> for \<^verbatim>\<open>undefined\<close>) or the message of
  the error thrown; the fixed wording of the prompt around its three variable parts is
  left out. \<open>postMessage channel text\<close> is \<open>Inl\<close> the message of the error thrown.
\<close>

record env =
  now :: int
  hostOffset :: int
  parse_other :: "string \<Rightarrow> int option"
  String_trim :: "string \<Rightarrow> string"
  formatIstLabel :: "int \<Rightarrow> string"
  get_branches :: "request \<Rightarrow> axios_error + branch_json list"
  get_merge_requests :: "request \<Rightarrow> axios_error + mr_json list"
  get_commits :: "request \<Rightarrow> axios_error + commit_json list"
  chat_completion :: "string \<Rightarrow> string \<Rightarrow> string \<Rightarrow> string \<Rightarrow> string + string option"
  postMessage :: "string \<Rightarrow> string \<Rightarrow> string + unit"

text \<open>The \<^verbatim>\<open>console.warn\<close> and \<^verbatim>\<open>console.error\<close> calls, by call site, and the Slack posts.\<close>

datatype event =
    BranchesFetchFailed axios_error
  | MRBranchesFetchFailed axios_error
  | CommitsFetchFailed string axios_error
  | CreatedMRsFetchFailed axios_error
  | ReviewedMRsFetchFailed axios_error
  | SummaryFailed string
  | Posted string string
  | HandlerError string

section \<open>The time window\<close>

definition IST_OFFSET :: int where
  "IST_OFFSET = 19800000"

definition DAY_MS :: int where
  "DAY_MS = 24 * 60 * 60 * 1000"

text \<open>
  \<^verbatim>\<open>istNow\<close> (route.ts, lines 23-28) prints the current instant as the wall clock of
  Asia/Kolkata, \<^verbatim>\<open>M/D/YYYY, h:mm:ss AM\<close>, to the second, and has \<^verbatim>\<open>Date\<close> read that text
  back. The text names no offset, so it is read as a wall clock of the host (this
  reading of the en-US text is built into \<open>istNow\<close>, not taken from \<open>parse_other\<close>).
  \<open>(now + IST_OFFSET) div 1000\<close> is the printed wall clock in seconds.
\<close>

definition istNow :: "env \<Rightarrow> Date" where
  "istNow e = Some ((now e + IST_OFFSET) div 1000 * 1000 - hostOffset e)"

definition istMidnightFromDateString :: "env \<Rightarrow> string \<Rightarrow> Date" where
  "istMidnightFromDateString e dateInput =
     Date_parse (parse_other e) (dateInput @ ''T00:00:00+05:30'')"

definition toIsoUTC :: "Date \<Rightarrow> exn + int" where
  "toIsoUTC d = toISOString (Date_plus d 0)"

record window =
  since :: int
  until :: int

text \<open>\<^verbatim>\<open>if (dateParam)\<close>: absent and empty are both falsy.\<close>

fun truthy :: "string option \<Rightarrow> bool" where
  "truthy None = False"
| "truthy (Some s) = (s \<noteq> [])"

definition toWindow :: "Date \<times> Date \<Rightarrow> exn + window" where
  "toWindow p =
     (case toIsoUTC (fst p) of
        Inl x \<Rightarrow> Inl x
      | Inr sinceIso \<Rightarrow>
          (case toIsoUTC (snd p) of
             Inl x \<Rightarrow> Inl x
           | Inr untilIso \<Rightarrow> Inr \<lparr>since = sinceIso, until = untilIso\<rparr>))"

text \<open>route.ts, lines 60-73.\<close>

definition resolveWindow :: "env \<Rightarrow> string option \<Rightarrow> exn + window" where
  "resolveWindow e dateParam =
     toWindow
       (case dateParam of
          Some d \<Rightarrow>
            if truthy dateParam
            then (let sinceIst = istMidnightFromDateString e d
                  in (sinceIst, Date_plus sinceIst DAY_MS))
            else (let untilIst = istNow e in (Date_plus untilIst (- DAY_MS), untilIst))
        | None \<Rightarrow> (let untilIst = istNow e in (Date_plus untilIst (- DAY_MS), untilIst)))"

text \<open>
  The second EOD route (src/unnamed/part_001, lines 43-58) and the debug route
  (src/unnamed/part_000, lines 38-51) take \<^verbatim>\<open>new Date()\<close> for the rolling window.
\<close>

definition resolveWindow_utc :: "env \<Rightarrow> string option \<Rightarrow> exn + window" where
  "resolveWindow_utc e dateParam =
     toWindow
       (case dateParam of
          Some d \<Rightarrow>
            if truthy dateParam
            then (let istMidnight = Date_parse (parse_other e) (d @ ''T00:00:00+05:30'')
                  in (istMidnight, Date_plus istMidnight DAY_MS))
            else (let untilUtc = Some (now e) in (Date_plus untilUtc (- DAY_MS), untilUtc))
        | None \<Rightarrow> (let untilUtc = Some (now e) in (Date_plus untilUtc (- DAY_MS), untilUtc)))"

section \<open>The requests sent to GitLab\<close>

text \<open>\<^verbatim>\<open>GITLAB_EMAIL || GITLAB_USERNAME\<close>: the email unless it is unset or empty.\<close>

definition authorFilter :: "config \<Rightarrow> param" where
  "authorFilter cfg =
     (let username = (case GITLAB_USERNAME cfg of None \<Rightarrow> Undefined | Some u \<Rightarrow> Str u)
      in case GITLAB_EMAIL cfg of
           None \<Rightarrow> username
         | Some m \<Rightarrow> if m \<noteq> [] then Str m else username)"

definition projectUrl :: "config \<Rightarrow> string" where
  "projectUrl cfg = GITLAB_API cfg @ ''/projects/'' @ GITLAB_PROJECT_ID cfg"

definition branchesRequest :: "config \<Rightarrow> request" where
  "branchesRequest cfg =
     \<lparr>url = projectUrl cfg @ ''/repository/branches?per_page=200'',
      private_token = GITLAB_TOKEN cfg, params = []\<rparr>"

definition updatedMRsRequest :: "config \<Rightarrow> window \<Rightarrow> request" where
  "updatedMRsRequest cfg w =
     \<lparr>url = projectUrl cfg @ ''/merge_requests'',
      private_token = GITLAB_TOKEN cfg,
      params = [(''updated_after'', Iso (since w)), (''updated_before'', Iso (until w)),
                (''per_page'', Num 100)]\<rparr>"

definition commitsRequest :: "config \<Rightarrow> window \<Rightarrow> string \<Rightarrow> request" where
  "commitsRequest cfg w branch =
     \<lparr>url = projectUrl cfg @ ''/repository/commits'',
      private_token = GITLAB_TOKEN cfg,
      params = [(''ref_name'', Str branch), (''since'', Iso (since w)),
                (''until'', Iso (until w)), (''author'', authorFilter cfg),
                (''per_page'', Num 100)]\<rparr>"

definition createdRequest :: "config \<Rightarrow> window \<Rightarrow> request" where
  "createdRequest cfg w =
     \<lparr>url = projectUrl cfg @ ''/merge_requests'',
      private_token = GITLAB_TOKEN cfg,
      params = [(''author_id'', Str (GITLAB_USER_ID cfg)),
                (''updated_after'', Iso (since w)), (''updated_before'', Iso (until w)),
                (''per_page'', Num 100)]\<rparr>"

definition reviewedRequest :: "config \<Rightarrow> window \<Rightarrow> request" where
  "reviewedRequest cfg w =
     \<lparr>url = GITLAB_API cfg @ ''/merge_requests'',
      private_token = GITLAB_TOKEN cfg,
      params = [(''reviewer_id'', Str (GITLAB_USER_ID cfg)),
                (''updated_after'', Iso (since w)), (''updated_before'', Iso (until w)),
                (''per_page'', Num 100)]\<rparr>"

section \<open>Branch selection\<close>

definition WEEK_MS :: int where
  "WEEK_MS = 7 * 24 * 60 * 60 * 1000"

text \<open>
  \<^verbatim>\<open>b.commit && new Date(b.commit.created_at) > cutoff\<close>: a comparison with an invalid
  date is false.
\<close>

definition isActive :: "env \<Rightarrow> int \<Rightarrow> branch_json \<Rightarrow> bool" where
  "isActive e cutoff b =
     (case bj_commit b of
        None \<Rightarrow> False
      | Some c \<Rightarrow>
          (case Date_parse (parse_other e) (created_at c) of
             None \<Rightarrow> False
           | Some t \<Rightarrow> cutoff < t))"

text \<open>
  The active branches, with the recency margin as a parameter; both routes fix it to
  seven days (\<open>activeBranches\<close>).
\<close>

definition activeBranchesWith :: "int \<Rightarrow> env \<Rightarrow> int \<Rightarrow> branch_json list \<Rightarrow> string option list" where
  "activeBranchesWith margin e untilT data =
     (let cutoff = untilT - margin
      in map bj_name (filter (isActive e cutoff) data))"

definition activeBranches :: "env \<Rightarrow> int \<Rightarrow> branch_json list \<Rightarrow> string option list" where
  "activeBranches e untilT data = activeBranchesWith WEEK_MS e untilT data"

text \<open>\<^verbatim>\<open>.filter(Boolean)\<close> on names: null and the empty string go, strings remain.\<close>

fun filter_Boolean :: "string option list \<Rightarrow> string list" where
  "filter_Boolean [] = []"
| "filter_Boolean (None # xs) = filter_Boolean xs"
| "filter_Boolean (Some s # xs) = (if s = [] then filter_Boolean xs else s # filter_Boolean xs)"

text \<open>
  \<^verbatim>\<open>Array.from(new Set(xs))\<close>: a \<^verbatim>\<open>Set\<close> keeps its elements in insertion order and
  ignores an element it already has.
\<close>

definition array_from_set :: "'a list \<Rightarrow> 'a list" where
  "array_from_set xs = fold (\<lambda>x acc. if x \<in> set acc then acc else acc @ [x]) xs []"

text \<open>route.ts, lines 86-126 (the same code is in src/unnamed/part_001, lines 74-116).\<close>

definition selectBranches :: "config \<Rightarrow> env \<Rightarrow> window \<Rightarrow> string list \<times> event list" where
  "selectBranches cfg e w =
     (let (active, ev1) =
            (case get_branches e (branchesRequest cfg) of
               Inr data \<Rightarrow> (activeBranches e (until w) data, [])
             | Inl err \<Rightarrow> ([], [BranchesFetchFailed err]));
          (mrBranches, ev2) =
            (case get_merge_requests e (updatedMRsRequest cfg w) of
               Inr data \<Rightarrow> (filter_Boolean (map mr_source_branch data), [])
             | Inl err \<Rightarrow> ([], [MRBranchesFetchFailed err]));
          allBranches = active @ map Some mrBranches
      in (array_from_set (filter_Boolean allBranches), ev1 @ ev2))"






section \<open>Commit collection\<close>

record commit =
  c_id :: string
  c_title :: string
  c_web_url :: string
  c_branch :: string

definition tagCommit :: "string \<Rightarrow> commit_json \<Rightarrow> commit" where
  "tagCommit branch c =
     \<lparr>c_id = cj_id c, c_title = cj_title c, c_web_url = cj_web_url c, c_branch = branch\<rparr>"

text \<open>\<^verbatim>\<open>err.response?.status && err.response.status !== 404\<close>\<close>

definition warnable :: "axios_error \<Rightarrow> bool" where
  "warnable err = (case err_status err of None \<Rightarrow> False | Some st \<Rightarrow> st \<noteq> 0 \<and> st \<noteq> 404)"

text \<open>
  One turn of the loop over the branches (route.ts, lines 134-161); the state is the
  \<^verbatim>\<open>commits\<close> array and the warnings printed so far.
\<close>

definition collectStep ::
  "config \<Rightarrow> env \<Rightarrow> window \<Rightarrow> string \<Rightarrow> commit list \<times> event list \<Rightarrow> commit list \<times> event list" where
  "collectStep cfg e w branch st =
     (case get_commits e (commitsRequest cfg w branch) of
        Inr data \<Rightarrow>
          if data \<noteq> [] then (fst st @ map (tagCommit branch) data, snd st) else st
      | Inl err \<Rightarrow>
          if warnable err then (fst st, snd st @ [CommitsFetchFailed branch err]) else st)"

definition collectCommits ::
  "config \<Rightarrow> env \<Rightarrow> window \<Rightarrow> string list \<Rightarrow> commit list \<times> event list" where
  "collectCommits cfg e w branches = fold (collectStep cfg e w) branches ([], [])"

text \<open>
  The debug route's loop (src/unnamed/part_000, lines 171-218) fills
  \<^verbatim>\<open>debugInfo.commitsPerBranch\<close>, an object keyed by branch, and warns unless the status is 404.
\<close>

record branch_commits =
  bc_count :: nat
  bc_commits :: "commit_json list"
  bc_error :: "axios_error option"

definition debug_collectStep ::
  "config \<Rightarrow> env \<Rightarrow> window \<Rightarrow> string \<Rightarrow> (string \<rightharpoonup> branch_commits) \<times> event list
     \<Rightarrow> (string \<rightharpoonup> branch_commits) \<times> event list" where
  "debug_collectStep cfg e w branch st =
     (case get_commits e (commitsRequest cfg w branch) of
        Inr data \<Rightarrow>
          ((fst st)(branch \<mapsto> \<lparr>bc_count = length data, bc_commits = data, bc_error = None\<rparr>),
           snd st)
      | Inl err \<Rightarrow>
          ((fst st)(branch \<mapsto> \<lparr>bc_count = 0, bc_commits = [], bc_error = Some err\<rparr>),
           if err_status err \<noteq> Some 404 then snd st @ [CommitsFetchFailed branch err]
           else snd st))"

definition debug_collectCommits ::
  "config \<Rightarrow> env \<Rightarrow> window \<Rightarrow> string list \<Rightarrow> (string \<rightharpoonup> branch_commits) \<times> event list" where
  "debug_collectCommits cfg e w branches =
     fold (debug_collectStep cfg e w) branches (Map.empty, [])"

section \<open>Deduplication\<close>

text \<open>
  route.ts, lines 163-169: \<^verbatim>\<open>commits.filter\<close> with the \<^verbatim>\<open>Set\<close> \<^verbatim>\<open>seen\<close> of the ids already
  kept; \<open>dedupe_from seen\<close> is the filter started with a given \<^verbatim>\<open>seen\<close>.
\<close>

fun dedupe_from :: "string set \<Rightarrow> commit list \<Rightarrow> commit list" where
  "dedupe_from seen [] = []"
| "dedupe_from seen (c # cs) =
     (if c_id c \<in> seen then dedupe_from seen cs
      else c # dedupe_from (insert (c_id c) seen) cs)"

definition dedupe :: "commit list \<Rightarrow> commit list" where
  "dedupe commits = dedupe_from {} commits"

section \<open>Merge-request collectors\<close>

text \<open>
  JavaScript strings are kept as their UTF-8 bytes: \<open>bullet\<close> is U+2022, \<open>arrow\<close> is
  U+2192, \<open>nl\<close> is the line feed.
\<close>

definition bullet :: string where
  "bullet = [CHR 0xE2, CHR 0x80, CHR 0xA2]"

definition arrow :: string where
  "arrow = [CHR 0xE2, CHR 0x86, CHR 0x92]"

definition nl :: string where
  "nl = [CHR 0x0A]"

definition mrLine :: "mr_json \<Rightarrow> string" where
  "mrLine mr = bullet @ '' '' @ mr_title mr @ '' ('' @ mr_web_url mr @ '')''"

text \<open>route.ts, lines 178-195.\<close>

definition fetchCreatedMRs :: "config \<Rightarrow> env \<Rightarrow> window \<Rightarrow> string list \<times> event list" where
  "fetchCreatedMRs cfg e w =
     (case get_merge_requests e (createdRequest cfg w) of
        Inr data \<Rightarrow> (map mrLine data, [])
      | Inl err \<Rightarrow> ([], [CreatedMRsFetchFailed err]))"

text \<open>route.ts, lines 200-214.\<close>

definition fetchReviewedMRs :: "config \<Rightarrow> env \<Rightarrow> window \<Rightarrow> string list \<times> event list" where
  "fetchReviewedMRs cfg e w =
     (case get_merge_requests e (reviewedRequest cfg w) of
        Inr data \<Rightarrow> (map mrLine data, [])
      | Inl err \<Rightarrow> ([], [ReviewedMRsFetchFailed err]))"

text \<open>
  The second EOD route prints each created merge request with its description
  (src/unnamed/part_001, lines 181-202).
\<close>

definition mrLine_desc :: "env \<Rightarrow> mr_json \<Rightarrow> string" where
  "mrLine_desc e mr =
     (let trimmed = (case mr_description mr of None \<Rightarrow> [] | Some d \<Rightarrow> String_trim e d);
          description = (if trimmed \<noteq> [] then trimmed else ''No description provided'')
      in bullet @ '' '' @ mr_title mr @ nl @ ''  Description: '' @ description @ nl
         @ ''  URL: '' @ mr_web_url mr)"

definition fetchCreatedMRs_desc :: "config \<Rightarrow> env \<Rightarrow> window \<Rightarrow> string list \<times> event list" where
  "fetchCreatedMRs_desc cfg e w =
     (case get_merge_requests e (createdRequest cfg w) of
        Inr data \<Rightarrow> (map (mrLine_desc e) data, [])
      | Inl err \<Rightarrow> ([], [CreatedMRsFetchFailed err]))"

section \<open>The digest\<close>

definition digit_char :: "int \<Rightarrow> char" where
  "digit_char k =
     (if k = 0 then CHR ''0'' else if k = 1 then CHR ''1'' else if k = 2 then CHR ''2''
      else if k = 3 then CHR ''3'' else if k = 4 then CHR ''4'' else if k = 5 then CHR ''5''
      else if k = 6 then CHR ''6'' else if k = 7 then CHR ''7'' else if k = 8 then CHR ''8''
      else CHR ''9'')"

text \<open>A length printed in a template string: its decimal digits.\<close>

function show_nat :: "nat \<Rightarrow> string" where
  "show_nat n =
     (if n < 10 then [digit_char (int n)]
      else show_nat (n div 10) @ [digit_char (int (n mod 10))])"
  by pat_completeness auto
termination
  by (relation "measure id") auto

declare show_nat.simps [simp del]

text \<open>\<^verbatim>\<open>lines.join("\n")\<close>\<close>

fun join_lines :: "string list \<Rightarrow> string" where
  "join_lines [] = []"
| "join_lines [x] = x"
| "join_lines (x # y # ys) = x @ nl @ join_lines (y # ys)"

definition commitLine :: "commit \<Rightarrow> string" where
  "commitLine c =
     bullet @ '' '' @ c_title c @ '' ('' @ c_branch c @ '') '' @ arrow @ '' '' @ c_web_url c"

definition orNone :: "string list \<Rightarrow> string" where
  "orNone ls = (if length ls \<noteq> 0 then join_lines ls else ''None'')"

text \<open>route.ts, lines 219-228.\<close>

definition activity :: "string list \<Rightarrow> string list \<Rightarrow> string list \<Rightarrow> string" where
  "activity commitLines createdMRs reviewedMRs =
     nl @ ''Commits ('' @ show_nat (length commitLines) @ ''):'' @ nl
     @ orNone commitLines @ nl
     @ nl @ ''MRs Created:'' @ nl
     @ orNone createdMRs @ nl
     @ nl @ ''MRs Reviewed:'' @ nl
     @ orNone reviewedMRs @ nl"

section \<open>The handler\<close>

text \<open>Steps 1 to 4 of \<^verbatim>\<open>handleEODRequest\<close>, with the collector of created MRs as a parameter.\<close>

definition gatherWith ::
  "(config \<Rightarrow> env \<Rightarrow> window \<Rightarrow> string list \<times> event list) \<Rightarrow> config \<Rightarrow> env \<Rightarrow> window
     \<Rightarrow> (commit list \<times> string list \<times> string list) \<times> event list" where
  "gatherWith fetchCreated cfg e w =
     (let (branches, ev1) = selectBranches cfg e w;
          (collected, ev2) = collectCommits cfg e w branches;
          commits = dedupe collected;
          (createdMRs, ev3) = fetchCreated cfg e w;
          (reviewedMRs, ev4) = fetchReviewedMRs cfg e w
      in ((commits, createdMRs, reviewedMRs), ev1 @ ev2 @ ev3 @ ev4))"

definition gather ::
  "config \<Rightarrow> env \<Rightarrow> window \<Rightarrow> (commit list \<times> string list \<times> string list) \<times> event list" where
  "gather = gatherWith fetchCreatedMRs"

text \<open>
  Step 6: \<^verbatim>\<open>aiResponse.choices?.[0]?.message?.content?.trim() || activity\<close>, and the raw
  activity when the call throws.
\<close>

definition summarize :: "config \<Rightarrow> env \<Rightarrow> string \<Rightarrow> string \<Rightarrow> string \<Rightarrow> string \<times> event list" where
  "summarize cfg e labelSince labelUntil act =
     (case chat_completion e (AI_MODEL_NAME cfg) labelSince labelUntil act of
        Inl m \<Rightarrow> (act, [SummaryFailed m])
      | Inr None \<Rightarrow> (act, [])
      | Inr (Some content) \<Rightarrow>
          (let t = String_trim e content in (if t \<noteq> [] then t else act, [])))"

record result =
  r_ok :: bool
  r_message :: string

definition handleWith ::
  "(env \<Rightarrow> string option \<Rightarrow> exn + window)
     \<Rightarrow> (config \<Rightarrow> env \<Rightarrow> window \<Rightarrow> string list \<times> event list)
     \<Rightarrow> config \<Rightarrow> env \<Rightarrow> string option \<Rightarrow> event list \<times> (exn + result)" where
  "handleWith resolve fetchCreated cfg e dateParam =
     (case resolve e dateParam of
        Inl x \<Rightarrow> ([], Inl x)
      | Inr w \<Rightarrow>
          (let labelSince = formatIstLabel e (since w);
               labelUntil = formatIstLabel e (until w);
               ((commits, createdMRs, reviewedMRs), ev) = gatherWith fetchCreated cfg e w;
               act = activity (map commitLine commits) createdMRs reviewedMRs;
               (eodSummary, ev') = summarize cfg e labelSince labelUntil act;
               slackDateLabel = labelSince @ '' '' @ arrow @ '' '' @ labelUntil
           in case postMessage e (SLACK_USER_ID cfg) eodSummary of
                Inl m \<Rightarrow> (ev @ ev', Inl (Error m))
              | Inr u \<Rightarrow>
                  (ev @ ev' @ [Posted (SLACK_USER_ID cfg) eodSummary],
                   Inr \<lparr>r_ok = True, r_message = ''EOD sent for window '' @ slackDateLabel\<rparr>)))"

text \<open>\<^verbatim>\<open>handleEODRequest\<close> of route.ts, and of the second EOD route (src/unnamed/part_001).\<close>

definition handleEODRequest :: "config \<Rightarrow> env \<Rightarrow> string option \<Rightarrow> event list \<times> (exn + result)" where
  "handleEODRequest = handleWith resolveWindow fetchCreatedMRs"

definition handleEODRequest_utc :: "config \<Rightarrow> env \<Rightarrow> string option \<Rightarrow> event list \<times> (exn + result)" where
  "handleEODRequest_utc = handleWith resolveWindow_utc fetchCreatedMRs_desc"




section \<open>Calendar dates as text\<close>

text \<open>
  The \<^verbatim>\<open>YYYY-MM-DD\<close> text of a calendar date, used to state what the window resolver does
  with a date parameter.
\<close>

definition pad2 :: "int \<Rightarrow> string" where
  "pad2 k = [digit_char (k div 10), digit_char (k mod 10)]"

definition pad4 :: "int \<Rightarrow> string" where
  "pad4 k = [digit_char (k div 1000), digit_char (k div 100 mod 10),
             digit_char (k div 10 mod 10), digit_char (k mod 10)]"

definition ymd_string :: "int \<Rightarrow> int \<Rightarrow> int \<Rightarrow> string" where
  "ymd_string y m d = pad4 y @ ''-'' @ pad2 m @ ''-'' @ pad2 d"

definition valid_ymd :: "int \<Rightarrow> int \<Rightarrow> int \<Rightarrow> bool" where
  "valid_ymd y m d =
     (0 \<le> y \<and> y \<le> 9999 \<and> 1 \<le> m \<and> m \<le> 12 \<and> 1 \<le> d \<and> d \<le> DaysInMonth y (m - 1))"

section \<open>Example data\<close>

definition cfg0 :: config where
  "cfg0 =
     \<lparr>GITLAB_API = ''https://gitlab.example.com/api/v4'', GITLAB_TOKEN = ''secret'',
      GITLAB_PROJECT_ID = ''42'', GITLAB_USER_ID = ''7'',
      GITLAB_EMAIL = Some ''dev@example.com'', GITLAB_USERNAME = None,
      SLACK_USER_ID = ''U1'', AI_MODEL_NAME = ''model''\<rparr>"

text \<open>
  A host in UTC at 2024-01-02T00:00:00.123Z, an idle project, a summariser that is
  down and a Slack that accepts every message.
\<close>

definition env0 :: env where
  "env0 =
     \<lparr>now = 1704153600123, hostOffset = 0, parse_other = (\<lambda>s. None),
      String_trim = (\<lambda>s. s), formatIstLabel = (\<lambda>t. ''label''),
      get_branches = (\<lambda>r. Inr []), get_merge_requests = (\<lambda>r. Inr []),
      get_commits = (\<lambda>r. Inr []),
      chat_completion = (\<lambda>model labelSince labelUntil act. Inl ''unavailable''),
      postMessage = (\<lambda>channel text. Inr ())\<rparr>"

text \<open>The window of the calendar day 2024-01-01 in IST.\<close>

definition w0 :: window where
  "w0 = \<lparr>since = 1704047400000, until = 1704133800000\<rparr>"

definition timeout_error :: axios_error where
  "timeout_error = \<lparr>err_message = ''timeout of 10000ms exceeded'', err_status = None\<rparr>"

definition commit_a :: commit_json where
  "commit_a = \<lparr>cj_id = ''a1'', cj_title = ''Fix parser'', cj_web_url = ''https://g/a1''\<rparr>"

definition commit_b :: commit_json where
  "commit_b = \<lparr>cj_id = ''b2'', cj_title = ''Add tests'', cj_web_url = ''https://g/b2''\<rparr>"

text \<open>
  The commit query for branch \<^verbatim>\<open>dev\<close> gets no response; every other branch has two
  commits.
\<close>

definition env_timeout :: env where
  "env_timeout =
     env0\<lparr>get_commits :=
            (\<lambda>r. if map_of (params r) ''ref_name'' = Some (Str ''dev'')
                 then Inl timeout_error else Inr [commit_a, commit_b])\<rparr>"

text \<open>
  Three branches (one pushed two days before the window ends, one a year old, one
  recent with a null name) and four merge requests updated in the window.
\<close>

definition branch_list :: "branch_json list" where
  "branch_list =
     [\<lparr>bj_name = Some ''main'', bj_commit = Some \<lparr>created_at = ''2023-12-30T10:00:00.000Z''\<rparr>\<rparr>,
      \<lparr>bj_name = Some ''old'', bj_commit = Some \<lparr>created_at = ''2023-01-01T10:00:00.000Z''\<rparr>\<rparr>,
      \<lparr>bj_name = None, bj_commit = Some \<lparr>created_at = ''2023-12-31T10:00:00.000+05:30''\<rparr>\<rparr>]"







text \<open>
  Branch \<^verbatim>\<open>main\<close> yields two commits and branch \<^verbatim>\<open>feature-x\<close> one of them again.
\<close>

definition commits_two_branches :: "commit list" where
  "commits_two_branches =
     [tagCommit ''main'' commit_a, tagCommit ''main'' commit_b, tagCommit ''feature-x'' commit_a]"

chapter \<open>Properties\<close>

section \<open>Calendar arithmetic\<close>

lemma div_succ:
  assumes "1 < (n::int)"
  shows "(x + 1) div n = x div n + (if (x + 1) mod n = 0 then 1 else 0)"
proof -
  define q where "q = x div n"
  define r where "r = x mod n"
  have x: "x = n * q + r" by (simp add: q_def r_def)
  have r: "0 \<le> r" "r < n" using assms by (simp_all add: r_def)
  show ?thesis
  proof (cases "r + 1 = n")
    case True
    then have e: "x + 1 = n * (q + 1) + 0" using x by (simp add: algebra_simps)
    have "(x + 1) div n = q + 1" using e assms by (intro int_div_pos_eq[of _ _ _ 0]) auto
    moreover have "(x + 1) mod n = 0" using e assms by (intro int_mod_pos_eq[of _ _ "q + 1"]) auto
    ultimately show ?thesis by (simp add: q_def)
  next
    case False
    then have lt: "r + 1 < n" using r by simp
    have e: "x + 1 = n * q + (r + 1)" using x by simp
    have "(x + 1) div n = q" using e lt r by (intro int_div_pos_eq[of _ _ _ "r + 1"]) auto
    moreover have "(x + 1) mod n = r + 1" using e lt r by (intro int_mod_pos_eq[of _ _ q]) auto
    ultimately show ?thesis using r by (simp add: q_def)
  qed
qed

lemma shift4: "(y - 1968) mod 4 = (y::int) mod 4"
  using mod_mult_self2[of y 4 "- 492"] by simp

lemma shift100: "(y - 1900) mod 100 = (y::int) mod 100"
  using mod_mult_self2[of y 100 "- 19"] by simp

lemma shift400: "(y - 1600) mod 400 = (y::int) mod 400"
  using mod_mult_self2[of y 400 "- 4"] by simp

lemma mod400_100: "(y::int) mod 400 = 0 \<Longrightarrow> y mod 100 = 0"
  using mod_mod_cancel[of 100 400 y] by simp

lemma mod100_4: "(y::int) mod 100 = 0 \<Longrightarrow> y mod 4 = 0"
  using mod_mod_cancel[of 4 100 y] by simp

lemma DayFromYear_next: "DayFromYear (y + 1) = DayFromYear y + DaysInYear y"
proof -
  have a: "(y + 1 - 1969) div 4 = (y - 1969) div 4 + (if y mod 4 = 0 then 1 else 0)"
    using div_succ[of 4 "y - 1969"] shift4[of y] by (simp add: algebra_simps)
  have b: "(y + 1 - 1901) div 100 = (y - 1901) div 100 + (if y mod 100 = 0 then 1 else 0)"
    using div_succ[of 100 "y - 1901"] shift100[of y] by (simp add: algebra_simps)
  have c: "(y + 1 - 1601) div 400 = (y - 1601) div 400 + (if y mod 400 = 0 then 1 else 0)"
    using div_succ[of 400 "y - 1601"] shift400[of y] by (simp add: algebra_simps)
  show ?thesis
    unfolding DayFromYear_def DaysInYear_def a b c
    using mod400_100[of y] mod100_4[of y] by (simp add: algebra_simps)
qed

lemma DayFromYear_mono: "y \<le> y' \<Longrightarrow> DayFromYear y \<le> DayFromYear y'"
proof -
  have step: "DayFromYear y \<le> DayFromYear (y + 1)" for y
    by (simp add: DayFromYear_next DaysInYear_def)
  have "DayFromYear y \<le> DayFromYear (y + int n)" for n
  proof (induction n)
    case 0
    then show ?case by simp
  next
    case (Suc n)
    from Suc step[of "y + int n"]
    have "DayFromYear y \<le> DayFromYear (y + int n + 1)" by (rule order_trans)
    then show ?case by (simp add: ac_simps)
  qed
  from this[of "nat (y' - y)"] show "y \<le> y' \<Longrightarrow> DayFromYear y \<le> DayFromYear y'"
    by simp
qed

lemma inYear_unique: "inYear y t \<Longrightarrow> inYear y' t \<Longrightarrow> y = y'"
proof (rule ccontr)
  assume a: "inYear y t" "inYear y' t" and ne: "y \<noteq> y'"
  then consider "y + 1 \<le> y'" | "y' + 1 \<le> y" by linarith
  then show False
  proof cases
    case 1
    then have "DayFromYear (y + 1) \<le> DayFromYear y'" by (rule DayFromYear_mono)
    with a show False by (simp add: inYear_def)
  next
    case 2
    then have "DayFromYear (y' + 1) \<le> DayFromYear y" by (rule DayFromYear_mono)
    with a show False by (simp add: inYear_def)
  qed
qed

lemma month_lookup:
  assumes dwy: "DayWithinYear y t = monthStart y mn + d - 1"
    and d: "1 \<le> d" "d \<le> DaysInMonth y mn"
    and mn: "mn = 0 \<or> mn = 1 \<or> mn = 2 \<or> mn = 3 \<or> mn = 4 \<or> mn = 5 \<or> mn = 6 \<or> mn = 7
      \<or> mn = 8 \<or> mn = 9 \<or> mn = 10 \<or> mn = 11"
  shows "MonthFromTime y t = mn \<and> DateFromTime y t = d"
proof -
  have l: "leap y = 0 \<or> leap y = 1" by (simp add: leap_def)
  show ?thesis
    unfolding DateFromTime_def MonthFromTime_def dwy Let_def
    using mn l d
    by (elim disjE; simp add: monthStart_def DaysInMonth_def)
qed

lemma civil_fields:
  assumes "valid_ymd y m d"
  defines "lt \<equiv> MakeDate (MakeDay y (m - 1) d) 0"
  shows "TimeWithinDay lt = 0 \<and> inYear y lt \<and> MonthFromTime y lt = m - 1 \<and> DateFromTime y lt = d"
proof -
  have m: "1 \<le> m" "m \<le> 12" and d: "1 \<le> d" "d \<le> DaysInMonth y (m - 1)"
    using assms by (auto simp: valid_ymd_def)
  have day: "Day lt = DayFromYear y + monthStart y (m - 1) + d - 1"
    using m by (simp add: lt_def MakeDate_def MakeDay_def Day_def msPerDay_def)
  have twd: "TimeWithinDay lt = 0"
    by (simp add: lt_def MakeDate_def TimeWithinDay_def msPerDay_def)
  have cases: "m - 1 = 0 \<or> m - 1 = 1 \<or> m - 1 = 2 \<or> m - 1 = 3 \<or> m - 1 = 4 \<or> m - 1 = 5
      \<or> m - 1 = 6 \<or> m - 1 = 7 \<or> m - 1 = 8 \<or> m - 1 = 9 \<or> m - 1 = 10 \<or> m - 1 = 11"
    using m by presburger
  have l: "leap y = 0 \<or> leap y = 1" by (simp add: leap_def)
  have diy: "DaysInYear y = 365 + leap y"
    by (simp add: leap_def DaysInYear_def)
  have ms0: "0 \<le> monthStart y (m - 1)"
    using l by (auto simp: monthStart_def)
  have "monthStart y (m - 1 + 1) \<le> 365 + leap y"
    using l by (auto simp: monthStart_def)
  then have "monthStart y (m - 1) + d \<le> 365 + leap y"
    using d by (simp add: DaysInMonth_def)
  then have iy: "inYear y lt"
    unfolding inYear_def day DayFromYear_next diy using ms0 d by simp
  have dwy: "DayWithinYear y lt = monthStart y (m - 1) + d - 1"
    by (simp add: DayWithinYear_def day)
  show ?thesis using twd iy month_lookup[OF dwy d cases] by simp
qed

section \<open>Reading the digits of a date\<close>

lemma digit_cases:
  "0 \<le> k \<Longrightarrow> k \<le> 9 \<Longrightarrow>
   k = 0 \<or> k = 1 \<or> k = 2 \<or> k = 3 \<or> k = 4 \<or> k = 5 \<or> k = 6 \<or> k = 7 \<or> k = 8 \<or> k = (9::int)"
  by arith

lemma digit_char_is_digit: "0 \<le> k \<Longrightarrow> k \<le> 9 \<Longrightarrow> is_digit (digit_char k)"
  by (drule (1) digit_cases) (elim disjE; simp add: is_digit_def digit_char_def)

lemma digit_val_digit_char: "0 \<le> k \<Longrightarrow> k \<le> 9 \<Longrightarrow> digit_val (digit_char k) = k"
  by (drule (1) digit_cases) (elim disjE; simp add: digit_val_def digit_char_def)

lemma mod10_digit: "0 \<le> (x::int) mod 10 \<and> x mod 10 \<le> 9"
proof -
  have "x mod 10 < 10" by (rule pos_mod_bound) simp
  moreover have "0 \<le> x mod 10" by (rule pos_mod_sign) simp
  ultimately show ?thesis by simp
qed

lemma div10_digit:
  assumes "0 \<le> (k::int)" "k \<le> 99"
  shows "0 \<le> k div 10 \<and> k div 10 \<le> 9"
proof -
  have "k div 10 \<le> 99 div 10"
    using assms(2) by (rule zdiv_mono1) simp
  moreover have "0 \<le> k div 10"
    using assms(1) by (simp add: pos_imp_zdiv_nonneg_iff)
  ultimately show ?thesis by simp
qed

lemma div1000_digit:
  assumes "0 \<le> (k::int)" "k \<le> 9999"
  shows "0 \<le> k div 1000 \<and> k div 1000 \<le> 9"
proof -
  have "k div 1000 \<le> 9999 div 1000"
    using assms(2) by (rule zdiv_mono1) simp
  moreover have "0 \<le> k div 1000"
    using assms(1) by (simp add: pos_imp_zdiv_nonneg_iff)
  ultimately show ?thesis by simp
qed

lemma decimal_compose:
  "r1 = 100 * x + r2 \<Longrightarrow> r2 = 10 * y + z \<Longrightarrow> k = 1000 * q + r1 \<Longrightarrow>
   1000 * q + 100 * x + 10 * y + z = (k::int)"
  by simp

lemma decimal4:
  "1000 * (k div 1000) + 100 * (k div 100 mod 10) + 10 * (k div 10 mod 10) + k mod 10 = (k::int)"
proof (rule decimal_compose)
  show "k mod 1000 = 100 * (k div 100 mod 10) + k mod 100"
    using zmod_zmult2_eq[of 10 k 100] by simp
  show "k mod 100 = 10 * (k div 10 mod 10) + k mod 10"
    using zmod_zmult2_eq[of 10 k 10] by simp
  show "k = 1000 * (k div 1000) + k mod 1000"
    by (rule mult_div_mod_eq[symmetric])
qed

lemma read_digits_pad2:
  assumes "0 \<le> k" "k \<le> 99"
  shows "read_digits 2 (pad2 k @ r) = Some (k, r)"
  using div10_digit[OF assms] mod10_digit[of k]
  by (simp add: read_digits_def pad2_def num_def digit_char_is_digit digit_val_digit_char)

lemma read_digits_pad4:
  assumes "0 \<le> k" "k \<le> 9999"
  shows "read_digits 4 (pad4 k @ r) = Some (k, r)"
  using div1000_digit[OF assms] mod10_digit[of "k div 100"] mod10_digit[of "k div 10"]
    mod10_digit[of k]
  by (simp add: read_digits_def pad4_def num_def digit_char_is_digit digit_val_digit_char decimal4)

lemma read_digits_00: "read_digits 2 (CHR ''0'' # CHR ''0'' # r) = Some (0, r)"
  by (simp add: read_digits_def num_def is_digit_def digit_val_def)

lemma DaysInMonth_le: "0 \<le> m \<Longrightarrow> m \<le> 11 \<Longrightarrow> DaysInMonth y m \<le> 31"
  by (simp add: DaysInMonth_def monthStart_def leap_def)

lemma parse_iso_ymd:
  assumes "valid_ymd y m d"
  shows "parse_iso (ymd_string y m d @ ''T00:00:00+05:30'')
         = Some (MakeDate (MakeDay y (m - 1) d) 0 - 19800000)"
proof -
  have y: "0 \<le> y" "y \<le> 9999" and m: "0 \<le> m" "m \<le> 99" "1 \<le> m" "m \<le> 12"
    and d1: "1 \<le> d" "d \<le> DaysInMonth y (m - 1)"
    using assms by (auto simp: valid_ymd_def)
  have "d \<le> 31" using DaysInMonth_le[of "m - 1" y] m d1 by simp
  then have d: "0 \<le> d" "d \<le> 99" using d1 by auto
  have off: "read_offset ''+05:30'' = Some 19800000"
    by (simp add: read_offset_def read_digits_def expect_def num_def is_digit_def digit_val_def)
  have frac: "read_fraction ''+05:30'' = Some (0, ''+05:30'')"
    by (simp add: read_fraction_def)
  show ?thesis
    unfolding parse_iso_def ymd_string_def
    using m d1
    by (simp add: read_digits_pad4[OF y] read_digits_pad2[OF m(1,2)] read_digits_pad2[OF d]
        expect_def read_digits_00 off frac MakeTime_def)
qed

lemma ymd_string_nonempty: "ymd_string y m d \<noteq> []"
  by (simp add: ymd_string_def pad4_def)

section \<open>The window of a calendar day\<close>

text \<open>
  C2. For a calendar date \<open>y\<close>-\<open>m\<close>-\<open>d\<close> written \<^verbatim>\<open>YYYY-MM-DD\<close>, both EOD routes resolve the
  window whose \<open>since\<close>, read at the fixed offset +05:30, is 00:00:00.000 on day \<open>d\<close> of
  month \<open>m\<close> of year \<open>y\<close>, and whose \<open>until\<close> is \<open>since\<close> plus exactly 24 hours.
\<close>

theorem calendar_day_window:
  assumes "valid_ymd y m d"
  shows "\<exists>w. resolveWindow e (Some (ymd_string y m d)) = Inr w
           \<and> resolveWindow_utc e (Some (ymd_string y m d)) = Inr w
           \<and> until w = since w + 24 * 60 * 60 * 1000
           \<and> until w - since w = 86400000
           \<and> TimeWithinDay (since w + IST_OFFSET) = 0
           \<and> inYear y (since w + IST_OFFSET)
           \<and> MonthFromTime y (since w + IST_OFFSET) = m - 1
           \<and> DateFromTime y (since w + IST_OFFSET) = d"
proof -
  let ?s = "MakeDate (MakeDay y (m - 1) d) 0 - 19800000"
  let ?w = "\<lparr>since = ?s, until = ?s + 86400000\<rparr>"
  have p: "Date_parse (parse_other e) (ymd_string y m d @ ''T00:00:00+05:30'') = Some ?s"
    by (simp add: Date_parse_def parse_iso_ymd[OF assms])
  have r1: "resolveWindow e (Some (ymd_string y m d)) = Inr ?w"
    by (simp add: resolveWindow_def istMidnightFromDateString_def p ymd_string_nonempty
        toWindow_def toIsoUTC_def toISOString_def Date_plus_def DAY_MS_def)
  have r2: "resolveWindow_utc e (Some (ymd_string y m d)) = Inr ?w"
    by (simp add: resolveWindow_utc_def p ymd_string_nonempty
        toWindow_def toIsoUTC_def toISOString_def Date_plus_def DAY_MS_def)
  have "since ?w + IST_OFFSET = MakeDate (MakeDay y (m - 1) d) 0"
    by (simp add: IST_OFFSET_def)
  with civil_fields[OF assms] r1 r2 show ?thesis
    by (intro exI[of _ ?w]) simp
qed

theorem calendar_day_window_witness:
  "valid_ymd 2024 1 1
   \<and> ymd_string 2024 1 1 = ''2024-01-01''
   \<and> resolveWindow env0 (Some ''2024-01-01'')
       = Inr \<lparr>since = 1704047400000, until = 1704133800000\<rparr>
   \<and> inYear 2024 (1704047400000 + IST_OFFSET)
   \<and> MonthFromTime 2024 (1704047400000 + IST_OFFSET) = 0
   \<and> DateFromTime 2024 (1704047400000 + IST_OFFSET) = 1
   \<and> TimeWithinDay (1704047400000 + IST_OFFSET) = 0"
proof -
  have h: "valid_ymd 2024 1 1"
    by (simp add: valid_ymd_def DaysInMonth_def monthStart_def)
  have s: "ymd_string 2024 1 1 = ''2024-01-01''"
    by (simp add: ymd_string_def pad4_def pad2_def digit_char_def)
  have p: "parse_iso ''2024-01-01T00:00:00+05:30'' = Some 1704047400000"
    by (simp add: parse_iso_def read_digits_def expect_def read_fraction_def read_offset_def
      is_digit_def digit_val_def num_def MakeDate_def MakeDay_def MakeTime_def DaysInMonth_def
      monthStart_def leap_def DaysInYear_def DayFromYear_def msPerDay_def)
  have r: "resolveWindow env0 (Some ''2024-01-01'')
       = Inr \<lparr>since = 1704047400000, until = 1704133800000\<rparr>"
    by (simp add: resolveWindow_def istMidnightFromDateString_def Date_parse_def p
        toWindow_def toIsoUTC_def toISOString_def Date_plus_def DAY_MS_def)
  from calendar_day_window[OF h, of env0] show ?thesis
    unfolding s r using h by auto
qed

section \<open>The rolling window\<close>

lemma rolling_window_length:
  "\<exists>w. resolveWindow e None = Inr w \<and> until w - since w = DAY_MS"
  by (simp add: resolveWindow_def istNow_def toWindow_def toIsoUTC_def toISOString_def
      Date_plus_def)

lemma rolling_window_utc:
  "resolveWindow_utc e None = Inr \<lparr>since = now e - DAY_MS, until = now e\<rparr>"
  by (simp add: resolveWindow_utc_def toWindow_def toIsoUTC_def toISOString_def Date_plus_def)

text \<open>
  C3. On a host in UTC at 2024-01-02T00:00:00.123Z, with no date parameter, route.ts
  resolves \<open>until\<close> to 2024-01-02T05:30:00.000Z: the IST wall clock of the current
  instant, cut to the second and read back as a UTC wall clock, five and a half hours
  after the current instant. The second EOD route resolves \<open>until\<close> to the current
  instant. In both, \<open>since\<close> is \<open>until\<close> minus 24 hours.
\<close>

theorem rolling_window_istNow_shifted:
  "now env0 = 1704153600123
   \<and> resolveWindow env0 None = Inr \<lparr>since = 1704087000000, until = 1704173400000\<rparr>
   \<and> resolveWindow_utc env0 None = Inr \<lparr>since = 1704067200123, until = 1704153600123\<rparr>"
  by (simp add: resolveWindow_def resolveWindow_utc_def istNow_def toWindow_def toIsoUTC_def
      toISOString_def Date_plus_def env0_def IST_OFFSET_def DAY_MS_def)

section \<open>An unparseable date parameter\<close>

lemma show_nat_0: "show_nat 0 = ''0''"
  by (simp add: show_nat.simps digit_char_def)

lemma idle_gather: "gatherWith fetchCreatedMRs cfg env0 w = (([], [], []), [])"
  by (simp add: gatherWith_def selectBranches_def activeBranches_def activeBranchesWith_def
      array_from_set_def collectCommits_def dedupe_def fetchCreatedMRs_def
      fetchReviewedMRs_def env0_def)







section \<open>The recency margin\<close>

lemma isActive_mono: "c2 \<le> c1 \<Longrightarrow> isActive e c1 b \<Longrightarrow> isActive e c2 b"
  by (auto simp: isActive_def split: option.splits)

text \<open>
  C9. For every branch listing and margins \<open>m1 \<le> m2\<close>, each branch active with margin
  \<open>m1\<close> (latest commit strictly after \<open>until - m1\<close>) is active with margin \<open>m2\<close>.
\<close>

theorem active_branches_monotone:
  assumes "m1 \<le> m2"
  shows "set (filter (isActive e (untilT - m1)) data) \<subseteq> set (filter (isActive e (untilT - m2)) data)
       \<and> set (activeBranchesWith m1 e untilT data) \<subseteq> set (activeBranchesWith m2 e untilT data)"
proof -
  have "isActive e (untilT - m2) b" if "isActive e (untilT - m1) b" for b
    using that assms isActive_mono[of "untilT - m2" "untilT - m1" e b] by simp
  then show ?thesis
    by (auto simp: activeBranchesWith_def)
qed

lemma created_parses:
  "parse_iso ''2023-12-30T10:00:00.000Z'' = Some 1703930400000"
  "parse_iso ''2023-01-01T10:00:00.000Z'' = Some 1672567200000"
  "parse_iso ''2023-12-31T10:00:00.000+05:30'' = Some 1703997000000"
  by (simp_all add: parse_iso_def read_digits_def expect_def read_fraction_def read_offset_def
      is_digit_def digit_val_def num_def MakeDate_def MakeDay_def MakeTime_def DaysInMonth_def
      monthStart_def leap_def DaysInYear_def DayFromYear_def msPerDay_def)

theorem active_branches_monotone_witness:
  "(172800000::int) \<le> WEEK_MS
   \<and> activeBranchesWith 172800000 env0 (until w0) branch_list = [None]
   \<and> activeBranchesWith WEEK_MS env0 (until w0) branch_list = [Some ''main'', None]
   \<and> set (activeBranchesWith 172800000 env0 (until w0) branch_list)
       \<subseteq> set (activeBranchesWith WEEK_MS env0 (until w0) branch_list)"
proof -
  have h: "(172800000::int) \<le> WEEK_MS" by (simp add: WEEK_MS_def)
  show ?thesis
    using h active_branches_monotone[OF h, of env0 "until w0" branch_list]
    by (simp add: activeBranchesWith_def isActive_def Date_parse_def created_parses
        branch_list_def w0_def WEEK_MS_def env0_def)
qed

section \<open>The selected branches\<close>













section \<open>Fault isolation in commit collection\<close>

lemma collect_fold:
  "fold (collectStep cfg e w) bs st =
     (fst st @ concat (map (\<lambda>b. case get_commits e (commitsRequest cfg w b) of
                                  Inr data \<Rightarrow> map (tagCommit b) data | Inl err \<Rightarrow> []) bs),
      snd st @ concat (map (\<lambda>b. case get_commits e (commitsRequest cfg w b) of
                                  Inr data \<Rightarrow> []
                                | Inl err \<Rightarrow> if warnable err then [CommitsFetchFailed b err] else [])
                           bs))"
  by (induction bs arbitrary: st) (auto simp: collectStep_def split: sum.splits)

text \<open>
  What the loop of route.ts collects: every branch whose query succeeds contributes its
  commits, whatever happens to the other branches; a failed query contributes nothing
  and is warned about only when it carries a status other than 0 and 404.
\<close>

lemma collectCommits_eq:
  "collectCommits cfg e w bs =
     (concat (map (\<lambda>b. case get_commits e (commitsRequest cfg w b) of
                         Inr data \<Rightarrow> map (tagCommit b) data | Inl err \<Rightarrow> []) bs),
      concat (map (\<lambda>b. case get_commits e (commitsRequest cfg w b) of
                         Inr data \<Rightarrow> []
                       | Inl err \<Rightarrow> if warnable err then [CommitsFetchFailed b err] else [])
                  bs))"
  by (simp add: collectCommits_def collect_fold)

lemma collectCommits_isolation:
  assumes "b \<in> set bs" and "get_commits e (commitsRequest cfg w b) = Inr data"
  shows "set (map (tagCommit b) data) \<subseteq> set (fst (collectCommits cfg e w bs))"
  using assms by (force simp: collectCommits_eq)

lemma collectCommits_not_found_silent:
  assumes "get_commits e (commitsRequest cfg w b) = Inl err" and "err_status err = Some 404"
  shows "collectCommits cfg e w [b] = ([], [])"
  using assms by (simp add: collectCommits_eq warnable_def)

lemma collectCommits_status_warned:
  assumes "get_commits e (commitsRequest cfg w b) = Inl err" and "err_status err = Some st"
    and "st \<noteq> 0" and "st \<noteq> 404"
  shows "collectCommits cfg e w [b] = ([], [CommitsFetchFailed b err])"
  using assms by (simp add: collectCommits_eq warnable_def)

lemma debug_collect_fold_events:
  "snd (fold (debug_collectStep cfg e w) bs st) =
     snd st @ concat (map (\<lambda>b. case get_commits e (commitsRequest cfg w b) of
                                  Inr data \<Rightarrow> []
                                | Inl err \<Rightarrow> if err_status err \<noteq> Some 404
                                             then [CommitsFetchFailed b err] else [])
                           bs)"
  by (induction bs arbitrary: st) (auto simp: debug_collectStep_def split: sum.splits)

lemma debug_collectCommits_events:
  "snd (debug_collectCommits cfg e w bs) =
     concat (map (\<lambda>b. case get_commits e (commitsRequest cfg w b) of
                         Inr data \<Rightarrow> []
                       | Inl err \<Rightarrow> if err_status err \<noteq> Some 404
                                    then [CommitsFetchFailed b err] else [])
                  bs)"
  by (simp add: debug_collectCommits_def debug_collect_fold_events)

text \<open>
  C4. The commit query of branch \<^verbatim>\<open>dev\<close> fails without a response (a timeout) and branch
  \<^verbatim>\<open>main\<close> yields two commits. The loop of route.ts collects the two commits and prints
  no warning for \<^verbatim>\<open>dev\<close>; the loop of the debug route warns about \<^verbatim>\<open>dev\<close>.
\<close>

theorem commit_collection_timeout_not_warned:
  "err_status timeout_error = None
   \<and> get_commits env_timeout (commitsRequest cfg0 w0 ''dev'') = Inl timeout_error
   \<and> collectCommits cfg0 env_timeout w0 [''dev'', ''main'']
       = ([tagCommit ''main'' commit_a, tagCommit ''main'' commit_b], [])
   \<and> snd (debug_collectCommits cfg0 env_timeout w0 [''dev'', ''main''])
       = [CommitsFetchFailed ''dev'' timeout_error]"
  by (simp add: collectCommits_eq debug_collectCommits_events
      env_timeout_def commitsRequest_def warnable_def timeout_error_def)

section \<open>Deduplication by commit id\<close>

lemma dedupe_from_ids:
  "set (map c_id (dedupe_from seen cs)) = set (map c_id cs) - seen"
  by (induction cs arbitrary: seen) auto

lemma dedupe_from_distinct:
  "distinct (map c_id (dedupe_from seen cs))"
  by (induction cs arbitrary: seen) (auto simp: dedupe_from_ids simp flip: set_map)

lemma dedupe_from_fixed:
  "distinct (map c_id cs) \<Longrightarrow> set (map c_id cs) \<inter> seen = {} \<Longrightarrow> dedupe_from seen cs = cs"
  by (induction cs arbitrary: seen) auto

lemma filter_upt_Suc:
  "filter P [0..<Suc n] = (if P 0 then [0] else []) @ map Suc (filter (\<lambda>i. P (Suc i)) [0..<n])"
proof -
  have "[0..<Suc n] = 0 # map Suc [0..<n]"
    by (simp add: upt_conv_Cons map_Suc_upt del: upt_Suc)
  then show ?thesis by (simp add: filter_map comp_def del: upt_Suc)
qed

lemma dedupe_from_positions:
  "dedupe_from seen cs =
     map (\<lambda>i. cs ! i)
       (filter (\<lambda>i. c_id (cs ! i) \<notin> seen \<and> (\<forall>j<i. c_id (cs ! j) \<noteq> c_id (cs ! i)))
          [0..<length cs])"
proof (induction cs arbitrary: seen)
  case Nil
  then show ?case by simp
next
  case (Cons c cs)
  have split: "\<And>i P. (\<forall>j<Suc i. P j) \<longleftrightarrow> P 0 \<and> (\<forall>j<i. P (Suc j))"
    by (auto simp: less_Suc_eq_0_disj)
  show ?case
  proof (cases "c_id c \<in> seen")
    case True
    have "filter (\<lambda>i. c_id (cs ! i) \<notin> seen \<and> c_id c \<noteq> c_id (cs ! i)
              \<and> (\<forall>j<i. c_id (cs ! j) \<noteq> c_id (cs ! i))) [0..<length cs]
        = filter (\<lambda>i. c_id (cs ! i) \<notin> seen
              \<and> (\<forall>j<i. c_id (cs ! j) \<noteq> c_id (cs ! i))) [0..<length cs]"
      using True by (intro filter_cong) auto
    with True show ?thesis
      by (simp add: filter_upt_Suc split Cons.IH comp_def del: upt_Suc)
  next
    case False
    have "filter (\<lambda>i. c_id (cs ! i) \<notin> seen \<and> c_id c \<noteq> c_id (cs ! i)
              \<and> (\<forall>j<i. c_id (cs ! j) \<noteq> c_id (cs ! i))) [0..<length cs]
        = filter (\<lambda>i. c_id (cs ! i) \<notin> insert (c_id c) seen
              \<and> (\<forall>j<i. c_id (cs ! j) \<noteq> c_id (cs ! i))) [0..<length cs]"
      by (intro filter_cong) auto
    with False show ?thesis
      by (simp add: filter_upt_Suc split Cons.IH comp_def del: upt_Suc)
  qed
qed

lemma dedupe_from_find:
  "c \<in> set (dedupe_from seen cs) \<Longrightarrow> find (\<lambda>d. c_id d = c_id c) cs = Some c"
proof (induction cs arbitrary: seen)
  case Nil
  then show ?case by simp
next
  case (Cons a cs)
  show ?case
  proof (cases "c_id a = c_id c")
    case True
    have "c_id c \<notin> set (map c_id (dedupe_from (insert (c_id a) seen) cs))"
      using True by (simp only: dedupe_from_ids) simp
    moreover have "c_id c \<notin> set (map c_id (dedupe_from seen cs))" if "c_id a \<in> seen"
      using True that by (simp only: dedupe_from_ids) simp
    ultimately show ?thesis using Cons.prems True
      by (auto split: if_splits)
  next
    case False
    then show ?thesis using Cons by (auto split: if_splits)
  qed
qed

text \<open>
  C1. For every list of commit records, \<open>dedupe\<close> returns a list in which each commit
  id of the input occurs exactly once; the output is the input restricted to the
  positions at which an id occurs for the first time, in input order; and each record
  kept is the first record of the input with its id, so it carries the branch of that
  first occurrence.
\<close>

theorem dedupe_first_occurrence:
  "distinct (map c_id (dedupe cs))
   \<and> set (map c_id (dedupe cs)) = set (map c_id cs)
   \<and> dedupe cs = map (\<lambda>i. cs ! i)
        (filter (\<lambda>i. \<forall>j<i. c_id (cs ! j) \<noteq> c_id (cs ! i)) [0..<length cs])
   \<and> (\<forall>c \<in> set (dedupe cs). find (\<lambda>d. c_id d = c_id c) cs = Some c
        \<and> c_branch c = c_branch (the (find (\<lambda>d. c_id d = c_id c) cs)))"
proof -
  have "find (\<lambda>d. c_id d = c_id c) cs = Some c" if "c \<in> set (dedupe cs)" for c
    using that unfolding dedupe_def by (rule dedupe_from_find)
  then show ?thesis
    unfolding dedupe_def
    using dedupe_from_distinct[of "{}" cs] dedupe_from_ids[of "{}" cs]
      dedupe_from_positions[of "{}" cs]
    by simp
qed

theorem dedupe_first_occurrence_witness:
  "dedupe commits_two_branches = [tagCommit ''main'' commit_a, tagCommit ''main'' commit_b]
   \<and> distinct (map c_id (dedupe commits_two_branches))
   \<and> set (map c_id (dedupe commits_two_branches)) = {''a1'', ''b2''}
   \<and> map c_branch (dedupe commits_two_branches) = [''main'', ''main'']
   \<and> find (\<lambda>d. c_id d = ''a1'') commits_two_branches = Some (tagCommit ''main'' commit_a)"
  using dedupe_first_occurrence[of commits_two_branches]
  by (simp add: dedupe_def commits_two_branches_def tagCommit_def commit_a_def commit_b_def)

text \<open>
  C10. \<open>dedupe\<close> is idempotent, and it is the identity on a list whose commit ids are
  pairwise distinct.
\<close>

theorem dedupe_idempotent:
  "dedupe (dedupe xs) = dedupe xs
   \<and> (distinct (map c_id xs) \<longrightarrow> dedupe xs = xs)"
  unfolding dedupe_def
  using dedupe_from_fixed[of "dedupe_from {} xs" "{}"] dedupe_from_fixed[of xs "{}"]
    dedupe_from_distinct[of "{}" xs]
  by simp

theorem dedupe_idempotent_witness:
  "distinct (map c_id [tagCommit ''main'' commit_a, tagCommit ''dev'' commit_b])
   \<and> dedupe [tagCommit ''main'' commit_a, tagCommit ''dev'' commit_b]
       = [tagCommit ''main'' commit_a, tagCommit ''dev'' commit_b]
   \<and> dedupe (dedupe commits_two_branches) = dedupe commits_two_branches"
  using dedupe_idempotent[of "[tagCommit ''main'' commit_a, tagCommit ''dev'' commit_b]"]
    dedupe_idempotent[of commits_two_branches]
  by (simp add: tagCommit_def commit_a_def commit_b_def)

section \<open>Scopes and isolation of the merge-request collectors\<close>

lemma requests_differ:
  "createdRequest cfg w \<noteq> updatedMRsRequest cfg w"
  "reviewedRequest cfg w \<noteq> updatedMRsRequest cfg w"
  "createdRequest cfg w \<noteq> reviewedRequest cfg w"
  "reviewedRequest cfg w \<noteq> createdRequest cfg w"
  by (simp_all add: createdRequest_def updatedMRsRequest_def reviewedRequest_def)

lemma collectCommits_cong:
  "get_commits e' = get_commits e \<Longrightarrow> collectCommits cfg e' w bs = collectCommits cfg e w bs"
proof -
  assume a: "get_commits e' = get_commits e"
  then have "collectStep cfg e' w = collectStep cfg e w"
    by (intro ext) (simp add: collectStep_def)
  then show ?thesis by (simp add: collectCommits_def)
qed

lemma selectBranches_cong:
  assumes "get_branches e' = get_branches e" "parse_other e' = parse_other e"
    and "get_merge_requests e' (updatedMRsRequest cfg w) = get_merge_requests e (updatedMRsRequest cfg w)"
  shows "selectBranches cfg e' w = selectBranches cfg e w"
proof -
  have "isActive e' = isActive e"
    by (intro ext) (simp only: isActive_def assms(2))
  then have ab: "activeBranches e' = activeBranches e"
    by (intro ext) (simp add: activeBranches_def activeBranchesWith_def)
  show ?thesis
    unfolding selectBranches_def ab assms(1) assms(3) ..
qed

lemma commits_stage_cong:
  assumes "get_branches e' = get_branches e" "parse_other e' = parse_other e"
    and "get_commits e' = get_commits e"
    and "get_merge_requests e' (updatedMRsRequest cfg w) = get_merge_requests e (updatedMRsRequest cfg w)"
  shows "collectCommits cfg e' w (fst (selectBranches cfg e' w))
       = collectCommits cfg e w (fst (selectBranches cfg e w))"
    and "snd (selectBranches cfg e' w) = snd (selectBranches cfg e w)"
  using selectBranches_cong[OF assms(1,2,4)] collectCommits_cong[OF assms(3)] by simp_all

lemma gatherWith_parts:
  "gatherWith fetchCreated cfg e w =
     ((dedupe (fst (collectCommits cfg e w (fst (selectBranches cfg e w)))),
       fst (fetchCreated cfg e w), fst (fetchReviewedMRs cfg e w)),
      snd (selectBranches cfg e w) @ snd (collectCommits cfg e w (fst (selectBranches cfg e w)))
        @ snd (fetchCreated cfg e w) @ snd (fetchReviewedMRs cfg e w))"
  by (simp add: gatherWith_def split_beta)

lemma mrLine_desc_cong: "String_trim e' = String_trim e \<Longrightarrow> mrLine_desc e' = mrLine_desc e"
proof -
  assume a: "String_trim e' = String_trim e"
  show ?thesis by (intro ext) (simp only: mrLine_desc_def a)
qed

lemma fetchCreatedMRs_desc_cong:
  assumes "String_trim e' = String_trim e"
    and "get_merge_requests e' (createdRequest cfg w) = get_merge_requests e (createdRequest cfg w)"
  shows "fetchCreatedMRs_desc cfg e' w = fetchCreatedMRs_desc cfg e w"
  unfolding fetchCreatedMRs_desc_def mrLine_desc_cong[OF assms(1)] assms(2) ..

text \<open>
  C8. The collector of reviewed merge requests sends its query to the instance-wide
  endpoint \<^verbatim>\<open>GITLAB_API/merge_requests\<close> with \<^verbatim>\<open>reviewer_id\<close>; the collector of authored
  merge requests sends its query to \<^verbatim>\<open>GITLAB_API/projects/ID/merge_requests\<close> with
  \<^verbatim>\<open>author_id\<close>, in route.ts (\<open>fetchCreatedMRs\<close>) and in the second EOD route
  (\<open>fetchCreatedMRs_desc\<close>); each collector prints what GitLab answers to its own query,
  and a failure of that query leaves its list empty and is recorded. Steps 1 to 4 of
  the handler (\<open>gather\<close> in route.ts, \<open>gatherWith fetchCreatedMRs_desc\<close> in the second EOD
  route) return the deduplicated commits of the selected branches, the authored list and
  the reviewed list, with the warnings of the four stages in order. Whatever GitLab
  answers otherwise, making the authored query fail empties the authored list and changes
  neither the reviewed list nor the deduplicated commits, and making the reviewed query
  fail empties the reviewed list and changes neither the authored list nor the commits.
\<close>

theorem mr_collectors_scoped_and_isolated:
  "url (reviewedRequest cfg w) = GITLAB_API cfg @ ''/merge_requests''
   \<and> map_of (params (reviewedRequest cfg w)) ''reviewer_id'' = Some (Str (GITLAB_USER_ID cfg))
   \<and> url (createdRequest cfg w)
       = GITLAB_API cfg @ ''/projects/'' @ GITLAB_PROJECT_ID cfg @ ''/merge_requests''
   \<and> map_of (params (createdRequest cfg w)) ''author_id'' = Some (Str (GITLAB_USER_ID cfg))
   \<and> fetchReviewedMRs cfg e w =
       (case get_merge_requests e (reviewedRequest cfg w) of
          Inr data \<Rightarrow> (map mrLine data, [])
        | Inl err \<Rightarrow> ([], [ReviewedMRsFetchFailed err]))
   \<and> fetchCreatedMRs cfg e w =
       (case get_merge_requests e (createdRequest cfg w) of
          Inr data \<Rightarrow> (map mrLine data, [])
        | Inl err \<Rightarrow> ([], [CreatedMRsFetchFailed err]))
   \<and> fetchCreatedMRs_desc cfg e w =
       (case get_merge_requests e (createdRequest cfg w) of
          Inr data \<Rightarrow> (map (mrLine_desc e) data, [])
        | Inl err \<Rightarrow> ([], [CreatedMRsFetchFailed err]))
   \<and> gather cfg e w =
       ((dedupe (fst (collectCommits cfg e w (fst (selectBranches cfg e w)))),
         fst (fetchCreatedMRs cfg e w), fst (fetchReviewedMRs cfg e w)),
        snd (selectBranches cfg e w)
          @ snd (collectCommits cfg e w (fst (selectBranches cfg e w)))
          @ snd (fetchCreatedMRs cfg e w) @ snd (fetchReviewedMRs cfg e w))
   \<and> gatherWith fetchCreatedMRs_desc cfg e w =
       ((dedupe (fst (collectCommits cfg e w (fst (selectBranches cfg e w)))),
         fst (fetchCreatedMRs_desc cfg e w), fst (fetchReviewedMRs cfg e w)),
        snd (selectBranches cfg e w)
          @ snd (collectCommits cfg e w (fst (selectBranches cfg e w)))
          @ snd (fetchCreatedMRs_desc cfg e w) @ snd (fetchReviewedMRs cfg e w))
   \<and> fst (gather cfg (e\<lparr>get_merge_requests := (get_merge_requests e)(createdRequest cfg w := Inl err)\<rparr>) w)
       = (fst (fst (gather cfg e w)), [], snd (snd (fst (gather cfg e w))))
   \<and> fst (gather cfg (e\<lparr>get_merge_requests := (get_merge_requests e)(reviewedRequest cfg w := Inl err)\<rparr>) w)
       = (fst (fst (gather cfg e w)), fst (snd (fst (gather cfg e w))), [])
   \<and> fst (gatherWith fetchCreatedMRs_desc cfg
            (e\<lparr>get_merge_requests := (get_merge_requests e)(createdRequest cfg w := Inl err)\<rparr>) w)
       = (fst (fst (gatherWith fetchCreatedMRs_desc cfg e w)), [],
          snd (snd (fst (gatherWith fetchCreatedMRs_desc cfg e w))))
   \<and> fst (gatherWith fetchCreatedMRs_desc cfg
            (e\<lparr>get_merge_requests := (get_merge_requests e)(reviewedRequest cfg w := Inl err)\<rparr>) w)
       = (fst (fst (gatherWith fetchCreatedMRs_desc cfg e w)),
          fst (snd (fst (gatherWith fetchCreatedMRs_desc cfg e w))), [])"
proof -
  let ?e1 = "e\<lparr>get_merge_requests := (get_merge_requests e)(createdRequest cfg w := Inl err)\<rparr>"
  let ?e2 = "e\<lparr>get_merge_requests := (get_merge_requests e)(reviewedRequest cfg w := Inl err)\<rparr>"
  have c1: "collectCommits cfg ?e1 w (fst (selectBranches cfg ?e1 w))
          = collectCommits cfg e w (fst (selectBranches cfg e w))"
    by (rule commits_stage_cong) (simp_all add: requests_differ[symmetric])
  have c2: "collectCommits cfg ?e2 w (fst (selectBranches cfg ?e2 w))
          = collectCommits cfg e w (fst (selectBranches cfg e w))"
    by (rule commits_stage_cong) (simp_all add: requests_differ[symmetric])
  have r1: "fetchReviewedMRs cfg ?e1 w = fetchReviewedMRs cfg e w"
    by (simp add: fetchReviewedMRs_def requests_differ)
  have r2: "fetchCreatedMRs cfg ?e2 w = fetchCreatedMRs cfg e w"
    by (simp add: fetchCreatedMRs_def requests_differ)
  have f1: "fst (fetchCreatedMRs cfg ?e1 w) = []"
    by (simp add: fetchCreatedMRs_def)
  have f2: "fst (fetchReviewedMRs cfg ?e2 w) = []"
    by (simp add: fetchReviewedMRs_def)
  have g1: "fst (gather cfg ?e1 w)
       = (fst (fst (gather cfg e w)), [], snd (snd (fst (gather cfg e w))))"
    unfolding gather_def gatherWith_parts c1 r1 f1 by simp
  have g2: "fst (gather cfg ?e2 w)
       = (fst (fst (gather cfg e w)), fst (snd (fst (gather cfg e w))), [])"
    unfolding gather_def gatherWith_parts c2 r2 f2 by simp
  have r3: "fetchCreatedMRs_desc cfg ?e2 w = fetchCreatedMRs_desc cfg e w"
    by (rule fetchCreatedMRs_desc_cong) (simp_all add: requests_differ)
  have f3: "fst (fetchCreatedMRs_desc cfg ?e1 w) = []"
    by (simp add: fetchCreatedMRs_desc_def)
  have g3: "fst (gatherWith fetchCreatedMRs_desc cfg ?e1 w)
       = (fst (fst (gatherWith fetchCreatedMRs_desc cfg e w)), [],
          snd (snd (fst (gatherWith fetchCreatedMRs_desc cfg e w))))"
    unfolding gatherWith_parts c1 r1 f3 by simp
  have g4: "fst (gatherWith fetchCreatedMRs_desc cfg ?e2 w)
       = (fst (fst (gatherWith fetchCreatedMRs_desc cfg e w)),
          fst (snd (fst (gatherWith fetchCreatedMRs_desc cfg e w))), [])"
    unfolding gatherWith_parts c2 r3 f2 by simp
  have u: "url (reviewedRequest cfg w) = GITLAB_API cfg @ ''/merge_requests''"
    "map_of (params (reviewedRequest cfg w)) ''reviewer_id'' = Some (Str (GITLAB_USER_ID cfg))"
    "url (createdRequest cfg w)
       = GITLAB_API cfg @ ''/projects/'' @ GITLAB_PROJECT_ID cfg @ ''/merge_requests''"
    "map_of (params (createdRequest cfg w)) ''author_id'' = Some (Str (GITLAB_USER_ID cfg))"
    by (simp_all add: reviewedRequest_def createdRequest_def projectUrl_def)
  have d: "fetchReviewedMRs cfg e w =
       (case get_merge_requests e (reviewedRequest cfg w) of
          Inr data \<Rightarrow> (map mrLine data, [])
        | Inl err \<Rightarrow> ([], [ReviewedMRsFetchFailed err]))"
    "fetchCreatedMRs cfg e w =
       (case get_merge_requests e (createdRequest cfg w) of
          Inr data \<Rightarrow> (map mrLine data, [])
        | Inl err \<Rightarrow> ([], [CreatedMRsFetchFailed err]))"
    by (simp_all add: fetchReviewedMRs_def fetchCreatedMRs_def)
  have d3: "fetchCreatedMRs_desc cfg e w =
       (case get_merge_requests e (createdRequest cfg w) of
          Inr data \<Rightarrow> (map (mrLine_desc e) data, [])
        | Inl err \<Rightarrow> ([], [CreatedMRsFetchFailed err]))"
    by (simp add: fetchCreatedMRs_desc_def)
  have p1: "gather cfg e w =
       ((dedupe (fst (collectCommits cfg e w (fst (selectBranches cfg e w)))),
         fst (fetchCreatedMRs cfg e w), fst (fetchReviewedMRs cfg e w)),
        snd (selectBranches cfg e w)
          @ snd (collectCommits cfg e w (fst (selectBranches cfg e w)))
          @ snd (fetchCreatedMRs cfg e w) @ snd (fetchReviewedMRs cfg e w))"
    unfolding gather_def by (rule gatherWith_parts)
  have p2: "gatherWith fetchCreatedMRs_desc cfg e w =
       ((dedupe (fst (collectCommits cfg e w (fst (selectBranches cfg e w)))),
         fst (fetchCreatedMRs_desc cfg e w), fst (fetchReviewedMRs cfg e w)),
        snd (selectBranches cfg e w)
          @ snd (collectCommits cfg e w (fst (selectBranches cfg e w)))
          @ snd (fetchCreatedMRs_desc cfg e w) @ snd (fetchReviewedMRs cfg e w))"
    by (rule gatherWith_parts)
  from u d d3 p1 p2 g1 g2 g3 g4 show ?thesis by (intro conjI)
qed

section \<open>The empty digest\<close>

lemma idle_window:
  "resolveWindow env0 None = Inr \<lparr>since = 1704087000000, until = 1704173400000\<rparr>"
  by (simp add: resolveWindow_def istNow_def toWindow_def toIsoUTC_def
      toISOString_def Date_plus_def env0_def IST_OFFSET_def DAY_MS_def)

text \<open>
  C7. With no commit after deduplication and no merge request in either list, the
  digest text reads \<^verbatim>\<open>Commits (0):\<close> and \<^verbatim>\<open>None\<close> under each of the three headers. For
  an idle project whose summariser is down, this text is what the EOD route posts.
\<close>

theorem activity_empty:
  "activity (map commitLine (dedupe [])) [] [] =
     nl @ ''Commits (0):'' @ nl @ ''None'' @ nl
     @ nl @ ''MRs Created:'' @ nl @ ''None'' @ nl
     @ nl @ ''MRs Reviewed:'' @ nl @ ''None'' @ nl
   \<and> fst (handleEODRequest cfg0 env0 None) =
       [SummaryFailed ''unavailable'',
        Posted ''U1''
          (nl @ ''Commits (0):'' @ nl @ ''None'' @ nl
           @ nl @ ''MRs Created:'' @ nl @ ''None'' @ nl
           @ nl @ ''MRs Reviewed:'' @ nl @ ''None'' @ nl)]"
proof -
  have a: "activity (map commitLine (dedupe [])) [] [] =
     nl @ ''Commits (0):'' @ nl @ ''None'' @ nl
     @ nl @ ''MRs Created:'' @ nl @ ''None'' @ nl
     @ nl @ ''MRs Reviewed:'' @ nl @ ''None'' @ nl"
    by (simp add: activity_def orNone_def dedupe_def show_nat_0)
  have "fst (handleEODRequest cfg0 env0 None) =
       [SummaryFailed ''unavailable'', Posted ''U1'' (activity (map commitLine (dedupe [])) [] [])]"
    by (simp add: handleEODRequest_def handleWith_def idle_window idle_gather summarize_def
        dedupe_def)
      (simp add: env0_def cfg0_def)
  with a show ?thesis by simp
qed

end
